theory Spec2Isabelle
  imports Main
begin

section \<open>Python values\<close>

text \<open>
  The values that documents, schemas, query bodies and service responses are made of:
  \<open>None\<close>, booleans, integers, strings, lists and dictionaries with string keys.
  A dictionary keeps its keys in insertion order, so it is an association list; a
  Python \<open>dict\<close> holds every key once (\<open>wf_dict\<close>).
\<close>

datatype pval =
    PNone
  | PBool bool
  | PInt int
  | PStr string
  | PList "pval list"
  | PDict "(string \<times> pval) list"

type_synonym dict = "(string \<times> pval) list"


text \<open>Truth value testing, as \<open>or\<close> and \<open>not\<close> apply it.\<close>

fun truthy :: "pval \<Rightarrow> bool" where
  "truthy PNone = False"
| "truthy (PBool b) = b"
| "truthy (PInt i) = (i \<noteq> 0)"
| "truthy (PStr s) = (s \<noteq> [])"
| "truthy (PList xs) = (xs \<noteq> [])"
| "truthy (PDict kvs) = (kvs \<noteq> [])"

text \<open>\<open>d.get(k)\<close>: the value stored under \<open>k\<close>, \<open>None\<close> when the key is absent.\<close>

definition dict_get :: "dict \<Rightarrow> string \<Rightarrow> pval" where
  "dict_get d k = (case map_of d k of Some v \<Rightarrow> v | None \<Rightarrow> PNone)"

text \<open>\<open>d.get(k, default)\<close>.\<close>

definition dict_get_default :: "dict \<Rightarrow> string \<Rightarrow> pval \<Rightarrow> pval" where
  "dict_get_default d k dflt = (case map_of d k of Some v \<Rightarrow> v | None \<Rightarrow> dflt)"

text \<open>
  Storing a key: an existing key keeps its position and takes the new value, a new key
  goes to the end.
\<close>

fun dict_set :: "dict \<Rightarrow> string \<Rightarrow> pval \<Rightarrow> dict" where
  "dict_set [] k v = [(k, v)]"
| "dict_set ((k', v') # kvs) k v =
     (if k' = k then (k, v) # kvs else (k', v') # dict_set kvs k v)"

text \<open>
  Unpacking \<open>**e\<close> inside a dictionary display whose earlier entries are \<open>d\<close>: the
  entries of \<open>e\<close> are stored one after the other, in order.
\<close>

fun dict_unpack :: "dict \<Rightarrow> dict \<Rightarrow> dict" where
  "dict_unpack d [] = d"
| "dict_unpack d ((k, v) # e) = dict_unpack (dict_set d k v) e"

section \<open>The bulk action of one document\<close>

text \<open>
  \<^verbatim>\<open>doc.get("contract_id") or doc.get("id")\<close>: \<open>a or b\<close> is \<open>a\<close> when \<open>a\<close> is
  truthy and \<open>b\<close> otherwise.
\<close>

definition derive_id :: "dict \<Rightarrow> pval" where
  "derive_id doc =
     (let a = dict_get doc ''contract_id''
      in if truthy a then a else dict_get doc ''id'')"

text \<open>
  The dictionary display of the comprehension in \<open>bulk_index_metadata\<close>:
  \<^verbatim>\<open>{"_op_type": "index", "_index": index_name, "_id": ..., **doc}\<close>.
\<close>

definition mk_action :: "string \<Rightarrow> dict \<Rightarrow> dict" where
  "mk_action index_name doc =
     dict_unpack
       [(''_op_type'', PStr ''index''),
        (''_index'', PStr index_name),
        (''_id'', derive_id doc)]
       doc"

section \<open>Errors, clients and the process state\<close>

text \<open>
  The exceptions the module's own expressions raise (\<open>int\<close> on a string that is no
  integer literal, an attribute missing on a value, iterating a value that is not
  iterable); every exception of the client library is a \<open>LibraryError\<close> carrying the
  name of its class.
\<close>

datatype pyerr = ValueError | AttributeError | TypeError | LibraryError string

text \<open>The keyword arguments \<open>get_os_client\<close> passes to the \<open>OpenSearch\<close> constructor.\<close>

record client_config =
  host :: "string option"
  port :: int
  http_auth :: "string option \<times> string option"
  use_ssl :: bool
  verify_certs :: bool
  connection_class :: string
  timeout :: int

text \<open>
  A client object: what it was constructed from, and its identity (two constructions
  give two objects, also from equal arguments).
\<close>

record client =
  ident :: nat
  config :: client_config

text \<open>
  The \<open>client\<close> argument of the three operations is declared \<open>Optional[OpenSearch]\<close>
  and defaults to \<open>None\<close>; Python accepts any value there. A client object defines
  neither \<open>__bool__\<close> nor \<open>__len__\<close>, so it is truthy.
\<close>

datatype client_arg = ClientObj client | Other pval

fun arg_truthy :: "client_arg \<Rightarrow> bool" where
  "arg_truthy (ClientObj c) = True"
| "arg_truthy (Other v) = truthy v"

text \<open>The calls the module makes into the client library, with their arguments.\<close>

datatype request =
    IndicesExists client string
  | IndicesCreate client string pval
  | HelpersBulk client "dict list" bool
  | Search client string pval


type_synonym addr = nat

text \<open>
  The state of the process: its environment variables, the one slot of the
  \<open>lru_cache\<close> around \<open>get_os_client\<close>, the number of client objects constructed so
  far, the dictionary objects on the heap (those at addresses below \<open>next_addr\<close> are
  allocated), the library calls made so far (oldest first), the lines printed so far,
  and the state of the search service.
\<close>

record 's process =
  environ :: "string \<rightharpoonup> string"
  cache :: "client option"
  clients_made :: nat
  objects :: "addr \<Rightarrow> dict"
  next_addr :: addr
  requests :: "request list"
  printed :: "string list"
  service :: 's

text \<open>
  What the module imports and does not define, taken as parameters: the builtin
  \<open>int\<close> on a string (\<open>None\<close> where it raises \<open>ValueError\<close>), the \<open>OpenSearch\<close>
  constructor (the exception it raises for a configuration, if any; it opens no
  connection), and the four calls that reach the service. The existence check and the
  search read the service; creating an index and the bulk helper may change it, also
  when they raise.
\<close>

record 's library =
  py_int :: "string \<Rightarrow> int option"
  OpenSearch :: "client_config \<Rightarrow> pyerr option"
  indices_exists :: "client \<Rightarrow> string \<Rightarrow> 's \<Rightarrow> pyerr + bool"
  indices_create :: "client \<Rightarrow> string \<Rightarrow> pval \<Rightarrow> 's \<Rightarrow> pyerr option \<times> 's"
  helpers_bulk :: "client \<Rightarrow> dict list \<Rightarrow> bool \<Rightarrow> 's \<Rightarrow> pyerr option \<times> 's"
  search :: "client \<Rightarrow> string \<Rightarrow> pval \<Rightarrow> 's \<Rightarrow> pyerr + pval"

section \<open>get_os_client\<close>

text \<open>
  The body of \<open>get_os_client\<close>. \<^verbatim>\<open>os.getenv("OPENSEARCH_PORT", 443)\<close> is the
  integer 443 when the variable is unset and its string otherwise, and \<open>int\<close> is
  applied to either.
\<close>

definition get_os_client_body :: "'s library \<Rightarrow> 's process \<Rightarrow> (pyerr + client) \<times> 's process" where
  "get_os_client_body L p =
     (case (case environ p ''OPENSEARCH_PORT'' of None \<Rightarrow> Some 443 | Some s \<Rightarrow> py_int L s) of
        None \<Rightarrow> (Inl ValueError, p)
      | Some prt \<Rightarrow>
          (let cfg = \<lparr>host = environ p ''OPENSEARCH_HOST'',
                      port = prt,
                      http_auth = (environ p ''OPENSEARCH_USER'', environ p ''OPENSEARCH_PASS''),
                      use_ssl = True,
                      verify_certs = True,
                      connection_class = ''RequestsHttpConnection'',
                      timeout = 30\<rparr>
           in case OpenSearch L cfg of
                Some e \<Rightarrow> (Inl e, p)
              | None \<Rightarrow> (Inr \<lparr>ident = clients_made p, config = cfg\<rparr>,
                         p\<lparr>clients_made := Suc (clients_made p)\<rparr>)))"

text \<open>
  The keyword arguments of the \<open>OpenSearch\<close> call in \<open>get_os_client\<close>, for the
  port \<open>prt\<close> that \<open>int\<close> returned.
\<close>

definition constructor_args :: "'s process \<Rightarrow> int \<Rightarrow> client_config" where
  "constructor_args p prt =
     \<lparr>host = environ p ''OPENSEARCH_HOST'',
      port = prt,
      http_auth = (environ p ''OPENSEARCH_USER'', environ p ''OPENSEARCH_PASS''),
      use_ssl = True,
      verify_certs = True,
      connection_class = ''RequestsHttpConnection'',
      timeout = 30\<rparr>"

text \<open>
  \<^verbatim>\<open>@lru_cache(maxsize=1)\<close> on a function without arguments: a stored result is
  returned without running the body; a result is stored when the body returns, not when
  it raises.
\<close>

definition get_os_client :: "'s library \<Rightarrow> 's process \<Rightarrow> (pyerr + client) \<times> 's process" where
  "get_os_client L p =
     (case cache p of
        Some c \<Rightarrow> (Inr c, p)
      | None \<Rightarrow>
          (case get_os_client_body L p of
             (Inl e, p1) \<Rightarrow> (Inl e, p1)
           | (Inr c, p1) \<Rightarrow> (Inr c, p1\<lparr>cache := Some c\<rparr>)))"

text \<open>\<^verbatim>\<open>client = client or get_os_client()\<close>.\<close>

definition client_or_get_os_client ::
  "'s library \<Rightarrow> client_arg \<Rightarrow> 's process \<Rightarrow> (pyerr + client_arg) \<times> 's process" where
  "client_or_get_os_client L a p =
     (if arg_truthy a then (Inr a, p)
      else (case get_os_client L p of
              (Inl e, p1) \<Rightarrow> (Inl e, p1)
            | (Inr c, p1) \<Rightarrow> (Inr (ClientObj c), p1)))"

section \<open>create_index_if_not_exists\<close>

definition quote :: string where
  "quote = [CHR 0x27]"

definition create_index_if_not_exists ::
  "'s library \<Rightarrow> string \<Rightarrow> pval \<Rightarrow> client_arg \<Rightarrow> 's process \<Rightarrow> (pyerr + pval) \<times> 's process" where
  "create_index_if_not_exists L index_name mapping a p =
     (case client_or_get_os_client L a p of
        (Inl e, p1) \<Rightarrow> (Inl e, p1)
      | (Inr (Other v), p1) \<Rightarrow> (Inl AttributeError, p1)
      | (Inr (ClientObj c), p1) \<Rightarrow>
          (let p2 = p1\<lparr>requests := requests p1 @ [IndicesExists c index_name]\<rparr>
           in case indices_exists L c index_name (service p2) of
                Inl e \<Rightarrow> (Inl e, p2)
              | Inr True \<Rightarrow>
                  (Inr PNone,
                   p2\<lparr>printed := printed p2 @
                        [''Index '' @ quote @ index_name @ quote @ '' already exists.'']\<rparr>)
              | Inr False \<Rightarrow>
                  (let p3 = p2\<lparr>requests := requests p2 @ [IndicesCreate c index_name mapping]\<rparr>
                   in case indices_create L c index_name mapping (service p3) of
                        (Some e, s') \<Rightarrow> (Inl e, p3\<lparr>service := s'\<rparr>)
                      | (None, s') \<Rightarrow>
                          (Inr PNone,
                           p3\<lparr>service := s',
                              printed := printed p3 @
                                [''Created index '' @ quote @ index_name @ quote]\<rparr>))))"

section \<open>bulk_index_metadata\<close>

text \<open>A new dictionary object takes the next free address.\<close>

definition alloc :: "dict \<Rightarrow> 's process \<Rightarrow> addr \<times> 's process" where
  "alloc d p =
     (next_addr p,
      p\<lparr>objects := (objects p)(next_addr p := d), next_addr := Suc (next_addr p)\<rparr>)"

text \<open>
  The list comprehension: the documents are given by their addresses; each one is read
  and its action is a new object.
\<close>

fun build_actions :: "string \<Rightarrow> addr list \<Rightarrow> 's process \<Rightarrow> addr list \<times> 's process" where
  "build_actions index_name [] p = ([], p)"
| "build_actions index_name (doc # docs) p =
     (case alloc (mk_action index_name (objects p doc)) p of
        (a, p1) \<Rightarrow>
          (case build_actions index_name docs p1 of
             (as, p2) \<Rightarrow> (a # as, p2)))"

text \<open>Decimal digits of \<open>len(actions)\<close> in the f-string.\<close>

fun show_nat :: "nat \<Rightarrow> string" where
  "show_nat n =
     (if n < 10 then [''0123456789'' ! n]
      else show_nat (n div 10) @ [''0123456789'' ! (n mod 10)])"

declare show_nat.simps [simp del]

definition bulk_index_metadata ::
  "'s library \<Rightarrow> string \<Rightarrow> addr list \<Rightarrow> client_arg \<Rightarrow> 's process \<Rightarrow> (pyerr + pval) \<times> 's process" where
  "bulk_index_metadata L index_name docs a p =
     (case client_or_get_os_client L a p of
        (Inl e, p1) \<Rightarrow> (Inl e, p1)
      | (Inr cl, p1) \<Rightarrow>
          (case build_actions index_name docs p1 of
             (actions, p2) \<Rightarrow>
               (case cl of
                  Other v \<Rightarrow> (Inl AttributeError, p2)
                | ClientObj c \<Rightarrow>
                    (let batch = map (objects p2) actions;
                         p3 = p2\<lparr>requests := requests p2 @ [HelpersBulk c batch True]\<rparr>
                     in case helpers_bulk L c batch True (service p3) of
                          (Some e, s') \<Rightarrow> (Inl e, p3\<lparr>service := s'\<rparr>)
                        | (None, s') \<Rightarrow>
                            (Inr PNone,
                             p3\<lparr>service := s',
                                printed := printed p3 @
                                  [''Indexed '' @ show_nat (length actions) @
                                   '' documents into '' @ quote @ index_name @ quote]\<rparr>)))))"

section \<open>query_index\<close>

text \<open>\<open>x.get(k, default)\<close> on any value: only a dictionary has the method.\<close>

fun py_get :: "pval \<Rightarrow> string \<Rightarrow> pval \<Rightarrow> pyerr + pval" where
  "py_get (PDict d) k dflt = Inr (dict_get_default d k dflt)"
| "py_get v k dflt = Inl AttributeError"

text \<open>
  \<open>for x in v\<close>: a list gives its elements, a dictionary its keys, a string its
  characters; the other values are not iterable.
\<close>

fun py_iter :: "pval \<Rightarrow> pyerr + pval list" where
  "py_iter (PList xs) = Inr xs"
| "py_iter (PDict d) = Inr (map (\<lambda>kv. PStr (fst kv)) d)"
| "py_iter (PStr s) = Inr (map (\<lambda>c. PStr [c]) s)"
| "py_iter v = Inl TypeError"

text \<open>\<^verbatim>\<open>[hit.get("_source", {}) for hit in hits]\<close>, stopping at the first exception.\<close>

fun sources_of :: "pval list \<Rightarrow> pyerr + pval list" where
  "sources_of [] = Inr []"
| "sources_of (hit # hits) =
     (case py_get hit ''_source'' (PDict []) of
        Inl e \<Rightarrow> Inl e
      | Inr s \<Rightarrow> (case sources_of hits of Inl e \<Rightarrow> Inl e | Inr ss \<Rightarrow> Inr (s # ss)))"

text \<open>The last two lines of \<open>query_index\<close>, on the response of the library.\<close>

definition extract_hits :: "pval \<Rightarrow> pyerr + pval list" where
  "extract_hits resp =
     (case py_get resp ''hits'' (PDict []) of
        Inl e \<Rightarrow> Inl e
      | Inr outer \<Rightarrow>
          (case py_get outer ''hits'' (PList []) of
             Inl e \<Rightarrow> Inl e
           | Inr hits \<Rightarrow>
               (case py_iter hits of
                  Inl e \<Rightarrow> Inl e
                | Inr hs \<Rightarrow> sources_of hs)))"

text \<open>The parameter \<open>size\<close> is \<open>None\<close> here when the caller leaves it out: it is then 10.\<close>

definition query_index ::
  "'s library \<Rightarrow> string \<Rightarrow> pval \<Rightarrow> int option \<Rightarrow> client_arg \<Rightarrow> 's process
     \<Rightarrow> (pyerr + pval) \<times> 's process" where
  "query_index L index_name query_body size_arg a p =
     (case client_or_get_os_client L a p of
        (Inl e, p1) \<Rightarrow> (Inl e, p1)
      | (Inr (Other v), p1) \<Rightarrow> (Inl AttributeError, p1)
      | (Inr (ClientObj c), p1) \<Rightarrow>
          (let size = (case size_arg of None \<Rightarrow> 10 | Some n \<Rightarrow> n);
               body = PDict [(''size'', PInt size), (''query'', query_body)];
               p2 = p1\<lparr>requests := requests p1 @ [Search c index_name body]\<rparr>
           in case search L c index_name body (service p2) of
                Inl e \<Rightarrow> (Inl e, p2)
              | Inr resp \<Rightarrow>
                  (case extract_hits resp of
                     Inl e \<Rightarrow> (Inl e, p2)
                   | Inr srcs \<Rightarrow> (Inr (PList srcs), p2))))"

section \<open>An in-memory library and service\<close>

text \<open>
  A small stand-in for the client library, to run the operations on concrete inputs:
  the service keeps the schemas of its indices and the actions it was sent, its
  constructor accepts every configuration, and a search returns every stored action as
  a hit. \<open>start env ds\<close> is a fresh process with the environment \<open>env\<close> and the
  dictionaries \<open>ds\<close> on its heap, at the addresses \<open>0\<close>, \<open>1\<close>, ...
\<close>

record mem_service =
  indices :: "(string \<times> pval) list"
  stored :: "dict list"

definition mem_library :: "mem_service library" where
  "mem_library =
     \<lparr>py_int = (\<lambda>s. if s = ''9200'' then Some 9200 else None),
      OpenSearch = (\<lambda>cfg. None),
      indices_exists = (\<lambda>c n s. Inr (map_of (indices s) n \<noteq> None)),
      indices_create = (\<lambda>c n m s.
         if map_of (indices s) n \<noteq> None then (Some (LibraryError ''RequestError''), s)
         else (None, s\<lparr>indices := (n, m) # indices s\<rparr>)),
      helpers_bulk = (\<lambda>c batch r s. (None, s\<lparr>stored := stored s @ batch\<rparr>)),
      search = (\<lambda>c n body s.
         Inr (PDict [(''hits'', PDict [(''hits'',
                PList (map (\<lambda>d. PDict [(''_score'', PInt 1), (''_source'', PDict d)]) (stored s)))])]))\<rparr>"

definition start :: "(string \<rightharpoonup> string) \<Rightarrow> dict list \<Rightarrow> mem_service process" where
  "start env ds =
     \<lparr>environ = env, cache = None, clients_made = 0,
      objects = (\<lambda>a. if a < length ds then ds ! a else []), next_addr = length ds,
      requests = [], printed = [],
      service = \<lparr>indices = [], stored = []\<rparr>\<rparr>"

text \<open>
  The two sample documents of the module's \<open>__main__\<close> block, and the client that
  \<open>get_os_client\<close> builds first in a process whose environment is empty.
\<close>

definition sample_docs :: "dict list" where
  "sample_docs =
     [[(''contract_id'', PStr ''C-001''), (''title'', PStr ''Alpha-Beta Agreement''),
       (''parties'', PList [PStr ''Alpha'', PStr ''Beta'']), (''expiry'', PStr ''2027-02-19''),
       (''status'', PStr ''active''), (''full_text'', PStr ''Indemnity clause applies.'')],
      [(''contract_id'', PStr ''C-002''), (''title'', PStr ''Gamma Licence''),
       (''parties'', PList [PStr ''Gamma'', PStr ''XYZ'']), (''expiry'', PStr ''2026-09-30''),
       (''status'', PStr ''signed''), (''full_text'', PStr ''Force majeure included.'')]]"

definition default_client :: client where
  "default_client =
     \<lparr>ident = 0,
      config = \<lparr>host = None, port = 443, http_auth = (None, None), use_ssl = True,
                verify_certs = True, connection_class = ''RequestsHttpConnection'',
                timeout = 30\<rparr>\<rparr>"

text \<open>The same process once the service holds the two sample documents.\<close>

definition loaded :: "mem_service process" where
  "loaded = (start Map.empty [])\<lparr>service := \<lparr>indices = [], stored = sample_docs\<rparr>\<rparr>"


section \<open>Facts about dictionaries\<close>

lemma map_of_dict_set: "map_of (dict_set d k v) = (map_of d)(k \<mapsto> v)"
  by (induction d k v rule: dict_set.induct) auto

lemma map_of_dict_unpack_other:
  "k \<notin> fst ` set e \<Longrightarrow> map_of (dict_unpack d e) k = map_of d k"
  by (induction d e rule: dict_unpack.induct) (auto simp: map_of_dict_set)



lemma map_of_mk_action_other:
  assumes "map_of doc k = None"
  shows "map_of (mk_action index_name doc) k =
           map_of [(''_op_type'', PStr ''index''), (''_index'', PStr index_name),
                   (''_id'', derive_id doc)] k"
proof -
  from assms have "k \<notin> fst ` set doc" by (simp add: map_of_eq_None_iff)
  then show ?thesis unfolding mk_action_def by (rule map_of_dict_unpack_other)
qed

section \<open>What the operations leave alone\<close>

lemma get_os_client_frame:
  "requests (snd (get_os_client L p)) = requests p"
  "service (snd (get_os_client L p)) = service p"
  "objects (snd (get_os_client L p)) = objects p"
  "next_addr (snd (get_os_client L p)) = next_addr p"
  "printed (snd (get_os_client L p)) = printed p"
  by (auto simp: get_os_client_def get_os_client_body_def Let_def split: option.splits prod.splits sum.splits)

lemma client_or_frame:
  assumes "client_or_get_os_client L a p = (r, p1)"
  shows "requests p1 = requests p" "service p1 = service p" "objects p1 = objects p"
    "next_addr p1 = next_addr p" "printed p1 = printed p"
  using assms get_os_client_frame [of L p]
  by (auto simp: client_or_get_os_client_def split: if_splits prod.splits sum.splits)

lemma build_actions_frame:
  "build_actions idx docs p = (as, p') \<Longrightarrow>
     requests p' = requests p \<and> service p' = service p \<and> printed p' = printed p \<and>
     environ p' = environ p \<and> cache p' = cache p \<and> clients_made p' = clients_made p \<and>
     next_addr p' = next_addr p + length docs \<and>
     (\<forall>a < next_addr p. objects p' a = objects p a) \<and>
     length as = length docs"
proof (induction docs arbitrary: p as p')
  case Nil
  then show ?case by simp
next
  case (Cons d ds)
  obtain a p1 where al: "alloc (mk_action idx (objects p d)) p = (a, p1)" by fastforce
  obtain as2 p2 where ba: "build_actions idx ds p1 = (as2, p2)" by fastforce
  from Cons.prems al ba have eq: "as = a # as2" "p' = p2" by auto
  from al have a: "a = next_addr p" "next_addr p1 = Suc (next_addr p)"
    "requests p1 = requests p" "service p1 = service p" "printed p1 = printed p"
    "environ p1 = environ p" "cache p1 = cache p" "clients_made p1 = clients_made p"
    "\<forall>x < next_addr p. objects p1 x = objects p x"
    by (auto simp: alloc_def)
  from Cons.IH [OF ba] a eq show ?case
    by auto
qed



section \<open>The cached client\<close>

lemma get_os_client_cached:
  assumes "get_os_client L p = (Inr c, p1)"
  shows "cache p1 = Some c"
  using assms
  by (auto simp: get_os_client_def split: option.splits prod.splits sum.splits)

lemma get_os_client_hit:
  assumes "cache q = Some c"
  shows "get_os_client L q = (Inr c, q)"
  using assms by (simp add: get_os_client_def)

lemma get_os_client_body_parsed:
  assumes "(environ p ''OPENSEARCH_PORT'' = None \<and> prt = 443) \<or>
           (\<exists>s. environ p ''OPENSEARCH_PORT'' = Some s \<and> py_int L s = Some prt)"
  shows "get_os_client_body L p =
           (case OpenSearch L (constructor_args p prt) of
              Some e \<Rightarrow> (Inl e, p)
            | None \<Rightarrow> (Inr \<lparr>ident = clients_made p, config = constructor_args p prt\<rparr>,
                       p\<lparr>clients_made := Suc (clients_made p)\<rparr>))"
  using assms
  by (auto simp: get_os_client_body_def constructor_args_def Let_def split: option.splits)

lemma get_os_client_body_bad_port:
  assumes "environ p ''OPENSEARCH_PORT'' = Some s" and "py_int L s = None"
  shows "get_os_client_body L p = (Inl ValueError, p)"
  using assms by (simp add: get_os_client_body_def)


section \<open>The two ways create_index_if_not_exists returns\<close>



section \<open>Reading the hits\<close>

lemma sources_of_dicts:
  "sources_of (map PDict hs) = Inr (map (\<lambda>d. dict_get_default d ''_source'' (PDict [])) hs)"
  by (induction hs) simp_all


section \<open>Runs on the in-memory service\<close>

lemma get_os_client_start:
  "get_os_client mem_library (start Map.empty ds) =
     (Inr default_client, (start Map.empty ds)\<lparr>cache := Some default_client, clients_made := Suc 0\<rparr>)"
  by (simp add: get_os_client_def get_os_client_body_def mem_library_def start_def
        default_client_def)

lemma client_or_start:
  "client_or_get_os_client mem_library (Other PNone) (start Map.empty ds) =
     (Inr (ClientObj default_client),
      (start Map.empty ds)\<lparr>cache := Some default_client, clients_made := Suc 0\<rparr>)"
  by (simp add: client_or_get_os_client_def get_os_client_start)

lemma bulk_index_metadata_accepted:
  assumes "client_or_get_os_client L a p = (Inr (ClientObj c), p1)"
    and "\<And>batch s. fst (helpers_bulk L c batch True s) = None"
  shows "fst (bulk_index_metadata L index_name docs a p) = Inr PNone"
proof -
  obtain as p2 where ba: "build_actions index_name docs p1 = (as, p2)" by fastforce
  obtain r s' where hb: "helpers_bulk L c (map (objects p2) as) True (service p2) = (r, s')"
    by fastforce
  with assms(2) [of "map (objects p2) as" "service p2"] have "r = None" by simp
  with assms(1) ba hb show ?thesis
    by (simp add: bulk_index_metadata_def Let_def)
qed

lemma bulk_sample_result:
  "fst (bulk_index_metadata mem_library ''contracts_meta'' [0, 1] (Other PNone)
          (start Map.empty sample_docs)) = Inr PNone"
  by (rule bulk_index_metadata_accepted [OF client_or_start]) (simp add: mem_library_def)


section \<open>The identifier and the keys of a bulk action\<close>

text \<open>
  Claim C3, as amended. For a document that has no key \<open>_id\<close> of its own, the
  identifier of its action is the value of \<open>contract_id\<close> when that field is present
  and truthy; when \<open>contract_id\<close> is absent or falsy (\<open>None\<close>, \<open>False\<close>, \<open>0\<close>, an
  empty string, list or dictionary) it is the value of \<open>id\<close>, and \<open>None\<close> when \<open>id\<close>
  is absent too.
\<close>

theorem mk_action_id_derivation:
  assumes "map_of doc ''_id'' = None"
  shows "dict_get (mk_action index_name doc) ''_id'' =
           (case map_of doc ''contract_id'' of
              Some v \<Rightarrow> if truthy v then v else dict_get doc ''id''
            | None \<Rightarrow> dict_get doc ''id'')"
proof -
  have "map_of (mk_action index_name doc) ''_id'' = Some (derive_id doc)"
    using map_of_mk_action_other [OF assms, of index_name] by simp
  then show ?thesis
    by (simp add: dict_get_def derive_id_def split: option.splits)
qed

theorem mk_action_id_derivation_witness:
  "map_of [(''contract_id'', PStr ''C-001''), (''id'', PStr ''D-7'')] ''_id'' = None \<and>
   dict_get (mk_action ''contracts_meta''
       [(''contract_id'', PStr ''C-001''), (''id'', PStr ''D-7'')]) ''_id'' = PStr ''C-001''"
proof -
  have h: "map_of [(''contract_id'', PStr ''C-001''), (''id'', PStr ''D-7'')] ''_id'' = None"
    by simp
  from mk_action_id_derivation [OF h, of "''contracts_meta''"] h show ?thesis by simp
qed

text \<open>
  The claim as first stated fails: a document whose \<open>contract_id\<close> is present but
  empty gets the value of \<open>id\<close> as its identifier.
\<close>

theorem mk_action_falsy_contract_id_counterexample:
  "map_of [(''contract_id'', PStr ''''), (''id'', PStr ''D-7'')] ''contract_id'' = Some (PStr '''') \<and>
   dict_get (mk_action ''contracts_meta''
       [(''contract_id'', PStr ''''), (''id'', PStr ''D-7'')]) ''_id'' = PStr ''D-7''"
  by (simp add: mk_action_def derive_id_def dict_get_def)



section \<open>The bulk loader\<close>

text \<open>
  Claim C2, as amended. \<open>bulk_index_metadata\<close> returns \<open>None\<close>, never the count:
  whenever it returns, it has made one call of the bulk helper with one action for each
  of the \<open>N\<close> documents, and the count appears in the line it prints,
  \<^verbatim>\<open>Indexed N documents into '<index_name>'\<close>.
\<close>

theorem bulk_index_metadata_returns_None:
  assumes "fst (bulk_index_metadata L index_name docs a p) = Inr v"
  shows "v = PNone \<and>
         printed (snd (bulk_index_metadata L index_name docs a p)) =
           printed p @ [''Indexed '' @ show_nat (length docs) @ '' documents into '' @
                        quote @ index_name @ quote] \<and>
         (\<exists>c batch. requests (snd (bulk_index_metadata L index_name docs a p)) =
                       requests p @ [HelpersBulk c batch True] \<and>
                     length batch = length docs)"
proof -
  obtain r p1 where co: "client_or_get_os_client L a p = (r, p1)" by fastforce
  obtain as p2 where ba: "build_actions index_name docs p1 = (as, p2)" by fastforce
  from client_or_frame [OF co] have f1: "printed p1 = printed p" "requests p1 = requests p"
    by auto
  from build_actions_frame [OF ba] f1
  have f2: "printed p2 = printed p" "requests p2 = requests p" "length as = length docs"
    by auto
  show ?thesis using assms co ba f2
    by (auto simp: bulk_index_metadata_def Let_def
             split: sum.splits client_arg.splits prod.splits option.splits)
qed

theorem bulk_index_metadata_returns_None_witness:
  "fst (bulk_index_metadata mem_library ''contracts_meta'' [0, 1] (Other PNone)
          (start Map.empty sample_docs)) = Inr PNone \<and>
   printed (snd (bulk_index_metadata mem_library ''contracts_meta'' [0, 1] (Other PNone)
          (start Map.empty sample_docs))) =
     printed (start Map.empty sample_docs) @
       [''Indexed '' @ show_nat (length [0::nat, 1]) @ '' documents into '' @
        quote @ ''contracts_meta'' @ quote]"
proof -
  have h: "fst (bulk_index_metadata mem_library ''contracts_meta'' [0, 1] (Other PNone)
          (start Map.empty sample_docs)) = Inr PNone"
    by (rule bulk_sample_result)
  from bulk_index_metadata_returns_None [OF h] h show ?thesis by blast
qed

text \<open>
  The claim as first stated fails: loading the two sample documents returns \<open>None\<close>,
  not 2.
\<close>

theorem bulk_index_metadata_count_counterexample:
  "length [0::nat, 1] = 2 \<and>
   fst (bulk_index_metadata mem_library ''contracts_meta'' [0, 1] (Other PNone)
          (start Map.empty sample_docs)) \<noteq> Inr (PInt 2)"
  using bulk_sample_result by simp




text \<open>
  Claim C8. Every dictionary object that exists before the call, so every document of
  the caller, has the same content after \<open>bulk_index_metadata\<close>, whatever the call
  returns or raises: the actions are new objects.
\<close>

theorem bulk_index_metadata_leaves_documents:
  assumes "d < next_addr p"
  shows "objects (snd (bulk_index_metadata L index_name docs a p)) d = objects p d"
proof -
  obtain r p1 where co: "client_or_get_os_client L a p = (r, p1)" by fastforce
  obtain as p2 where ba: "build_actions index_name docs p1 = (as, p2)" by fastforce
  from client_or_frame [OF co] have f1: "objects p1 = objects p" "next_addr p1 = next_addr p"
    by auto
  from build_actions_frame [OF ba] f1 assms have f2: "objects p2 d = objects p d" by auto
  show ?thesis using co ba f1 f2
    by (auto simp: bulk_index_metadata_def Let_def
             split: sum.splits client_arg.splits prod.splits option.splits)
qed

theorem bulk_index_metadata_leaves_documents_witness:
  "(0::nat) < next_addr (start Map.empty sample_docs) \<and>
   objects (snd (bulk_index_metadata mem_library ''contracts_meta'' [0, 1] (Other PNone)
                   (start Map.empty sample_docs))) 0
     = objects (start Map.empty sample_docs) 0"
proof -
  have h: "(0::nat) < next_addr (start Map.empty sample_docs)"
    by (simp add: start_def sample_docs_def)
  from bulk_index_metadata_leaves_documents [OF h] h show ?thesis by simp
qed

section \<open>The client provider\<close>

text \<open>
  Claim C1, as amended. \<open>get_os_client\<close> makes no call to the service and validates
  nothing itself. With an empty cache: when the port variable holds a string that
  \<open>int\<close> rejects, it raises \<open>ValueError\<close> and leaves the process as it is; otherwise
  it calls the \<open>OpenSearch\<close> constructor with the host, the user and the password as
  they are (\<open>None\<close> when unset), the port that \<open>int\<close> returned (443 when the variable
  is unset), TLS, certificate verification and a timeout of 30, and it raises what the
  constructor raises or returns the new client and caches it. It raises nothing else.
\<close>

theorem get_os_client_no_validation:
  assumes "cache p = None"
  shows "requests (snd (get_os_client L p)) = requests p \<and>
         service (snd (get_os_client L p)) = service p \<and>
         (\<forall>s. environ p ''OPENSEARCH_PORT'' = Some s \<and> py_int L s = None \<longrightarrow>
            get_os_client L p = (Inl ValueError, p)) \<and>
         (\<forall>prt. (environ p ''OPENSEARCH_PORT'' = None \<and> prt = 443) \<or>
                (\<exists>s. environ p ''OPENSEARCH_PORT'' = Some s \<and> py_int L s = Some prt) \<longrightarrow>
            get_os_client L p =
              (case OpenSearch L (constructor_args p prt) of
                 Some e \<Rightarrow> (Inl e, p)
               | None \<Rightarrow>
                   (Inr \<lparr>ident = clients_made p, config = constructor_args p prt\<rparr>,
                    p\<lparr>clients_made := Suc (clients_made p),
                      cache := Some \<lparr>ident = clients_made p,
                                     config = constructor_args p prt\<rparr>\<rparr>))) \<and>
         (\<forall>e. fst (get_os_client L p) = Inl e \<longrightarrow>
            (e = ValueError \<and> (\<exists>s. environ p ''OPENSEARCH_PORT'' = Some s \<and> py_int L s = None)) \<or>
            (\<exists>cfg. host cfg = environ p ''OPENSEARCH_HOST'' \<and>
                   http_auth cfg = (environ p ''OPENSEARCH_USER'', environ p ''OPENSEARCH_PASS'') \<and>
                   OpenSearch L cfg = Some e)) \<and>
         (\<forall>c. fst (get_os_client L p) = Inr c \<longrightarrow>
            ident c = clients_made p \<and>
            host (config c) = environ p ''OPENSEARCH_HOST'' \<and>
            (case environ p ''OPENSEARCH_PORT'' of
               None \<Rightarrow> port (config c) = 443
             | Some s \<Rightarrow> py_int L s = Some (port (config c))) \<and>
            http_auth (config c) = (environ p ''OPENSEARCH_USER'', environ p ''OPENSEARCH_PASS'') \<and>
            use_ssl (config c) \<and> verify_certs (config c) \<and>
            connection_class (config c) = ''RequestsHttpConnection'' \<and>
            timeout (config c) = 30 \<and>
            OpenSearch L (config c) = None)"
proof (intro conjI)
  show "requests (snd (get_os_client L p)) = requests p" by (rule get_os_client_frame)
  show "service (snd (get_os_client L p)) = service p" by (rule get_os_client_frame)
  show "\<forall>s. environ p ''OPENSEARCH_PORT'' = Some s \<and> py_int L s = None \<longrightarrow>
            get_os_client L p = (Inl ValueError, p)"
    using assms by (simp add: get_os_client_def get_os_client_body_bad_port)
  show "\<forall>prt. (environ p ''OPENSEARCH_PORT'' = None \<and> prt = 443) \<or>
                (\<exists>s. environ p ''OPENSEARCH_PORT'' = Some s \<and> py_int L s = Some prt) \<longrightarrow>
            get_os_client L p =
              (case OpenSearch L (constructor_args p prt) of
                 Some e \<Rightarrow> (Inl e, p)
               | None \<Rightarrow>
                   (Inr \<lparr>ident = clients_made p, config = constructor_args p prt\<rparr>,
                    p\<lparr>clients_made := Suc (clients_made p),
                      cache := Some \<lparr>ident = clients_made p,
                                     config = constructor_args p prt\<rparr>\<rparr>))"
  proof (intro allI impI)
    fix prt
    assume "(environ p ''OPENSEARCH_PORT'' = None \<and> prt = 443) \<or>
                (\<exists>s. environ p ''OPENSEARCH_PORT'' = Some s \<and> py_int L s = Some prt)"
    then have "get_os_client_body L p =
           (case OpenSearch L (constructor_args p prt) of
              Some e \<Rightarrow> (Inl e, p)
            | None \<Rightarrow> (Inr \<lparr>ident = clients_made p, config = constructor_args p prt\<rparr>,
                       p\<lparr>clients_made := Suc (clients_made p)\<rparr>))"
      by (rule get_os_client_body_parsed)
    with assms show "get_os_client L p =
              (case OpenSearch L (constructor_args p prt) of
                 Some e \<Rightarrow> (Inl e, p)
               | None \<Rightarrow>
                   (Inr \<lparr>ident = clients_made p, config = constructor_args p prt\<rparr>,
                    p\<lparr>clients_made := Suc (clients_made p),
                      cache := Some \<lparr>ident = clients_made p,
                                     config = constructor_args p prt\<rparr>\<rparr>))"
      by (simp add: get_os_client_def split: option.splits)
  qed
  show "\<forall>e. fst (get_os_client L p) = Inl e \<longrightarrow>
            (e = ValueError \<and> (\<exists>s. environ p ''OPENSEARCH_PORT'' = Some s \<and> py_int L s = None)) \<or>
            (\<exists>cfg. host cfg = environ p ''OPENSEARCH_HOST'' \<and>
                   http_auth cfg = (environ p ''OPENSEARCH_USER'', environ p ''OPENSEARCH_PASS'') \<and>
                   OpenSearch L cfg = Some e)"
    using assms
    by (fastforce simp: get_os_client_def get_os_client_body_def Let_def
          split: option.splits)
  show "\<forall>c. fst (get_os_client L p) = Inr c \<longrightarrow>
            ident c = clients_made p \<and>
            host (config c) = environ p ''OPENSEARCH_HOST'' \<and>
            (case environ p ''OPENSEARCH_PORT'' of
               None \<Rightarrow> port (config c) = 443
             | Some s \<Rightarrow> py_int L s = Some (port (config c))) \<and>
            http_auth (config c) = (environ p ''OPENSEARCH_USER'', environ p ''OPENSEARCH_PASS'') \<and>
            use_ssl (config c) \<and> verify_certs (config c) \<and>
            connection_class (config c) = ''RequestsHttpConnection'' \<and>
            timeout (config c) = 30 \<and>
            OpenSearch L (config c) = None"
    using assms
    by (auto simp: get_os_client_def get_os_client_body_def Let_def split: option.splits)
qed

theorem get_os_client_no_validation_witness:
  "cache (start [''OPENSEARCH_PORT'' \<mapsto> ''9200''] []) = None \<and>
   cache (start [''OPENSEARCH_PORT'' \<mapsto> ''https''] []) = None \<and>
   get_os_client mem_library (start [''OPENSEARCH_PORT'' \<mapsto> ''https''] []) =
     (Inl ValueError, start [''OPENSEARCH_PORT'' \<mapsto> ''https''] []) \<and>
   fst (get_os_client mem_library (start [''OPENSEARCH_PORT'' \<mapsto> ''9200''] [])) =
     Inr \<lparr>ident = 0,
          config = \<lparr>host = None, port = 9200, http_auth = (None, None), use_ssl = True,
                    verify_certs = True, connection_class = ''RequestsHttpConnection'',
                    timeout = 30\<rparr>\<rparr>"
proof -
  have h1: "cache (start [''OPENSEARCH_PORT'' \<mapsto> ''9200''] []) = None"
    by (simp add: start_def)
  have h2: "cache (start [''OPENSEARCH_PORT'' \<mapsto> ''https''] []) = None"
    by (simp add: start_def)
  have e2: "environ (start [''OPENSEARCH_PORT'' \<mapsto> ''https''] []) ''OPENSEARCH_PORT'' = Some ''https'' \<and>
            py_int mem_library ''https'' = None"
    by (simp add: start_def mem_library_def)
  have e1: "(environ (start [''OPENSEARCH_PORT'' \<mapsto> ''9200''] []) ''OPENSEARCH_PORT'' = None \<and>
              (9200::int) = 443) \<or>
            (\<exists>s. environ (start [''OPENSEARCH_PORT'' \<mapsto> ''9200''] []) ''OPENSEARCH_PORT'' = Some s \<and>
                 py_int mem_library s = Some 9200)"
    by (simp add: start_def mem_library_def)
  from get_os_client_no_validation [OF h2, of mem_library] e2
  have bad: "get_os_client mem_library (start [''OPENSEARCH_PORT'' \<mapsto> ''https''] []) =
     (Inl ValueError, start [''OPENSEARCH_PORT'' \<mapsto> ''https''] [])"
    by blast
  from get_os_client_no_validation [OF h1, of mem_library] e1
  have "get_os_client mem_library (start [''OPENSEARCH_PORT'' \<mapsto> ''9200''] []) =
          (case OpenSearch mem_library
                  (constructor_args (start [''OPENSEARCH_PORT'' \<mapsto> ''9200''] []) 9200) of
             Some e \<Rightarrow> (Inl e, start [''OPENSEARCH_PORT'' \<mapsto> ''9200''] [])
           | None \<Rightarrow>
               (Inr \<lparr>ident = clients_made (start [''OPENSEARCH_PORT'' \<mapsto> ''9200''] []),
                     config = constructor_args (start [''OPENSEARCH_PORT'' \<mapsto> ''9200''] []) 9200\<rparr>,
                (start [''OPENSEARCH_PORT'' \<mapsto> ''9200''] [])
                  \<lparr>clients_made := Suc (clients_made (start [''OPENSEARCH_PORT'' \<mapsto> ''9200''] [])),
                   cache := Some \<lparr>ident = clients_made (start [''OPENSEARCH_PORT'' \<mapsto> ''9200''] []),
                                  config = constructor_args (start [''OPENSEARCH_PORT'' \<mapsto> ''9200''] []) 9200\<rparr>\<rparr>))"
    by blast
  then have ok: "fst (get_os_client mem_library (start [''OPENSEARCH_PORT'' \<mapsto> ''9200''] [])) =
     Inr \<lparr>ident = 0,
          config = \<lparr>host = None, port = 9200, http_auth = (None, None), use_ssl = True,
                    verify_certs = True, connection_class = ''RequestsHttpConnection'',
                    timeout = 30\<rparr>\<rparr>"
    by (simp add: mem_library_def constructor_args_def start_def)
  from h1 h2 bad ok show ?thesis by blast
qed

text \<open>
  The claim as first stated fails: with a host and neither user nor password, the
  function returns a client whose credentials are \<open>None\<close>.
\<close>

theorem get_os_client_missing_credentials_counterexample:
  "fst (get_os_client mem_library (start [''OPENSEARCH_HOST'' \<mapsto> ''search.example''] [])) =
     Inr \<lparr>ident = 0,
          config = \<lparr>host = Some ''search.example'', port = 443, http_auth = (None, None),
                    use_ssl = True, verify_certs = True,
                    connection_class = ''RequestsHttpConnection'', timeout = 30\<rparr>\<rparr>"
  by (simp add: get_os_client_def get_os_client_body_def mem_library_def start_def)

text \<open>
  Claim C7. Once \<open>get_os_client\<close> has returned a client, a later call returns the
  same client object and leaves the process as it is (no new construction), also when
  the environment has changed in between.
\<close>

theorem get_os_client_memoized:
  assumes "get_os_client L p = (Inr c, p1)"
  shows "get_os_client L' (p1\<lparr>environ := env'\<rparr>) = (Inr c, p1\<lparr>environ := env'\<rparr>)"
proof -
  from assms have "cache p1 = Some c" by (rule get_os_client_cached)
  then have "cache (p1\<lparr>environ := env'\<rparr>) = Some c" by simp
  then show ?thesis by (rule get_os_client_hit)
qed

theorem get_os_client_memoized_witness:
  "get_os_client mem_library (start Map.empty []) =
     (Inr default_client,
      (start Map.empty [])\<lparr>cache := Some default_client, clients_made := Suc 0\<rparr>) \<and>
   get_os_client mem_library
     ((start Map.empty [])\<lparr>cache := Some default_client, clients_made := Suc 0,
        environ := [''OPENSEARCH_HOST'' \<mapsto> ''search.example'']\<rparr>) =
     (Inr default_client,
      (start Map.empty [])\<lparr>cache := Some default_client, clients_made := Suc 0,
        environ := [''OPENSEARCH_HOST'' \<mapsto> ''search.example'']\<rparr>)"
proof -
  have h: "get_os_client mem_library (start Map.empty []) =
     (Inr default_client,
      (start Map.empty [])\<lparr>cache := Some default_client, clients_made := Suc 0\<rparr>)"
    by (rule get_os_client_start)
  from get_os_client_memoized [OF h, of mem_library "[''OPENSEARCH_HOST'' \<mapsto> ''search.example'']"] h
  show ?thesis by simp
qed

text \<open>
  Claim C10. Each of the three operations, given a \<open>client\<close> argument that is falsy
  (\<open>None\<close>, which is also the default, or any other falsy value), behaves as it does
  with the client that \<open>get_os_client\<close> returns, and fails as \<open>get_os_client\<close> does
  when that fails.
\<close>

theorem default_client_substituted:
  assumes "\<not> arg_truthy a"
  shows "create_index_if_not_exists L index_name mapping a p =
           (case get_os_client L p of
              (Inl e, p1) \<Rightarrow> (Inl e, p1)
            | (Inr c, p1) \<Rightarrow> create_index_if_not_exists L index_name mapping (ClientObj c) p1) \<and>
         bulk_index_metadata L index_name docs a p =
           (case get_os_client L p of
              (Inl e, p1) \<Rightarrow> (Inl e, p1)
            | (Inr c, p1) \<Rightarrow> bulk_index_metadata L index_name docs (ClientObj c) p1) \<and>
         query_index L index_name query_body size_arg a p =
           (case get_os_client L p of
              (Inl e, p1) \<Rightarrow> (Inl e, p1)
            | (Inr c, p1) \<Rightarrow> query_index L index_name query_body size_arg (ClientObj c) p1)"
proof -
  have r: "client_or_get_os_client L a p =
             (case get_os_client L p of
                (Inl e, p1) \<Rightarrow> (Inl e, p1)
              | (Inr c, p1) \<Rightarrow> (Inr (ClientObj c), p1))"
    using assms by (simp add: client_or_get_os_client_def)
  have t: "\<And>c q. client_or_get_os_client L (ClientObj c) q = (Inr (ClientObj c), q)"
    by (simp add: client_or_get_os_client_def)
  show ?thesis
    by (simp add: create_index_if_not_exists_def bulk_index_metadata_def query_index_def r t
          split: prod.splits sum.splits)
qed

theorem default_client_substituted_witness:
  "\<not> arg_truthy (Other (PStr [])) \<and>
   query_index mem_library ''contracts_meta'' (PDict []) None (Other (PStr []))
       (start Map.empty []) =
     (case get_os_client mem_library (start Map.empty []) of
        (Inl e, p1) \<Rightarrow> (Inl e, p1)
      | (Inr c, p1) \<Rightarrow>
          query_index mem_library ''contracts_meta'' (PDict []) None (ClientObj c) p1)"
proof -
  have h: "\<not> arg_truthy (Other (PStr []))" by simp
  from default_client_substituted [OF h, where L = mem_library and p = "start Map.empty []"
      and index_name = "''contracts_meta''" and query_body = "PDict []" and size_arg = None]
    h
  show ?thesis by blast
qed

section \<open>The index manager\<close>




section \<open>The query runner\<close>

text \<open>
  Claim C6. When the response of the search is a dictionary whose \<open>hits\<close> entry is a
  dictionary whose \<open>hits\<close> entry is a list of hit dictionaries, \<open>query_index\<close>
  returns the list of their \<open>_source\<close> values in the order of the hits (an empty
  dictionary for a hit without \<open>_source\<close>), so the empty list and not \<open>None\<close> when
  there is no hit. Its one call into the library is the search, with the body
  \<^verbatim>\<open>{"size": size, "query": query_body}\<close>, where \<open>size\<close> is 10 when left out.
\<close>

theorem query_index_returns_sources:
  assumes "client_or_get_os_client L a p = (Inr (ClientObj c), p1)"
    and "search L c index_name
           (PDict [(''size'', PInt (case size_arg of None \<Rightarrow> 10 | Some n \<Rightarrow> n)),
                   (''query'', query_body)])
           (service p) = Inr (PDict resp)"
    and "map_of resp ''hits'' = Some (PDict outer)"
    and "map_of outer ''hits'' = Some (PList (map PDict hs))"
  shows "query_index L index_name query_body size_arg a p =
           (Inr (PList (map (\<lambda>d. dict_get_default d ''_source'' (PDict [])) hs)),
            p1\<lparr>requests := requests p @
                 [Search c index_name
                    (PDict [(''size'', PInt (case size_arg of None \<Rightarrow> 10 | Some n \<Rightarrow> n)),
                            (''query'', query_body)])]\<rparr>)"
proof -
  from client_or_frame [OF assms(1)] have fr: "requests p1 = requests p" "service p1 = service p"
    by auto
  have ex: "extract_hits (PDict resp) =
              Inr (map (\<lambda>d. dict_get_default d ''_source'' (PDict [])) hs)"
    using assms(3,4) by (simp add: extract_hits_def dict_get_default_def sources_of_dicts)
  from assms(1,2) fr ex show ?thesis
    by (simp add: query_index_def Let_def)
qed

theorem query_index_returns_sources_witness:
  "search mem_library default_client ''contracts_meta''
      (PDict [(''size'', PInt (case Some 5 of None \<Rightarrow> 10 | Some n \<Rightarrow> n)),
              (''query'', PDict [(''match_all'', PDict [])])])
      (service loaded) =
     Inr (PDict [(''hits'', PDict [(''hits'',
            PList (map PDict
              (map (\<lambda>d. [(''_score'', PInt 1), (''_source'', PDict d)]) sample_docs)))])]) \<and>
   fst (query_index mem_library ''contracts_meta'' (PDict [(''match_all'', PDict [])]) (Some 5)
          (ClientObj default_client) loaded) =
     Inr (PList (map PDict sample_docs))"
proof -
  have h1: "client_or_get_os_client mem_library (ClientObj default_client) loaded =
              (Inr (ClientObj default_client), loaded)"
    by (simp add: client_or_get_os_client_def)
  have h2: "search mem_library default_client ''contracts_meta''
      (PDict [(''size'', PInt (case Some 5 of None \<Rightarrow> 10 | Some n \<Rightarrow> n)),
              (''query'', PDict [(''match_all'', PDict [])])])
      (service loaded) =
     Inr (PDict [(''hits'', PDict [(''hits'',
            PList (map PDict
              (map (\<lambda>d. [(''_score'', PInt 1), (''_source'', PDict d)]) sample_docs)))])])"
    by (simp add: mem_library_def loaded_def)
  have h3: "map_of [(''hits'', PDict [(''hits'',
            PList (map PDict
              (map (\<lambda>d. [(''_score'', PInt 1), (''_source'', PDict d)]) sample_docs)))])]
            ''hits'' =
          Some (PDict [(''hits'',
            PList (map PDict
              (map (\<lambda>d. [(''_score'', PInt 1), (''_source'', PDict d)]) sample_docs)))])"
    by simp
  have h4: "map_of [(''hits'',
            PList (map PDict
              (map (\<lambda>d. [(''_score'', PInt 1), (''_source'', PDict d)]) sample_docs)))] ''hits'' =
          Some (PList (map PDict
              (map (\<lambda>d. [(''_score'', PInt 1), (''_source'', PDict d)]) sample_docs)))"
    by simp
  from query_index_returns_sources [OF h1 h2 h3 h4]
  have "fst (query_index mem_library ''contracts_meta'' (PDict [(''match_all'', PDict [])]) (Some 5)
          (ClientObj default_client) loaded) =
     Inr (PList (map PDict sample_docs))"
    by (simp add: dict_get_default_def comp_def)
  with h2 show ?thesis by (rule conjI)
qed

end
